theory Spec2Isabelle
  imports Main
begin

section \<open>Auto-Review Responder: the response-generation pipeline of backend/main.py\<close>

text \<open>
  The development embeds the functions \<open>check_usage_limit\<close>, \<open>generate_ai_responses\<close>,
  \<open>generate_responses\<close> and \<open>upgrade_subscription\<close> of \<^verbatim>\<open>backend/main.py\<close>, with the
  table \<open>TIER_LIMITS\<close> and the two in-memory dictionaries.

  Conventions. Python \<open>int\<close> is \<open>int\<close>; Python \<open>str\<close> is \<open>string\<close>, a list of code
  points below 256; \<open>Optional[str]\<close> is \<open>string option\<close>; a raised exception is the \<open>Inl\<close> of a sum. A function that mutates its
  argument returns the mutated object next to its result, also when it raises. What the
  program obtains from outside itself (the clock, the \<open>datetime\<close> codec, the language-model
  provider, \<open>json.loads\<close>) is read from a record \<open>env\<close>. Output written with \<open>print\<close> is
  not modelled.
\<close>

subsection \<open>Data models (lines 28-48)\<close>

record UserProfile =
  user_id :: string
  business_name :: string
  business_type :: string
  tone :: string
  brand_voice :: "string option"
  signature :: "string option"
  subscription_tier :: string
  usage_count :: int
  usage_reset_date :: "string option"

record ReviewInput =
  review_text :: string
  rating :: int
  reviewer_name :: "string option"
  platform :: string
  review_context :: "string option"

text \<open>
  A value as \<open>json.loads\<close> builds it. A \<open>dict\<close> is the list of its items in insertion
  order (its keys are distinct); a \<open>float\<close> is kept as its \<open>repr\<close>.
\<close>

datatype json =
    JNull
  | JBool bool
  | JInt int
  | JFloat string
  | JStr string
  | JArr "json list"
  | JObj "(string \<times> json) list"

record ResponseOutput =
  responses :: "json list"
  usage_remaining :: int

text \<open>
  The exceptions that leave a function. \<open>HTTPException\<close> carries \<open>status_code\<close> and
  \<open>detail\<close>; \<open>KeyError\<close> the missing key; the others their message.
\<close>

datatype error =
    HTTPException int string
  | KeyError string
  | ValueError string
  | TypeError string
  | ValidationError string

subsection \<open>The environment\<close>

type_synonym datetime = int

text \<open>
  A naive \<open>datetime\<close> is its number of microseconds on the local time line, so that
  adding \<open>timedelta(days=d)\<close> adds \<open>d * 86400000000\<close>.
\<close>

definition timedelta_days :: "int \<Rightarrow> int" where
  "timedelta_days d = d * 86400000000"

text \<open>
  What \<open>client.messages.create(...)\<close> followed by \<open>message.content[0].text\<close> does
  (lines 132-147): it yields the text, or raises. The handler at line 155 catches
  \<open>json.JSONDecodeError\<close> from anywhere in the \<open>try\<close> block, so a provider exception of that
  class is kept apart from every other exception (\<open>Raises\<close>, with \<open>str(e)\<close>).
\<close>

datatype provider_result =
    Returns string
  | RaisesJSONDecodeError string
  | Raises string

text \<open>
  What \<open>json.loads\<close> does on a string: the parsed value, \<open>json.JSONDecodeError\<close>, or
  another exception (\<open>RecursionError\<close> on deep nesting, \<open>ValueError\<close> on an integer
  literal of more than 4300 digits), with \<open>str(e)\<close>.
\<close>

datatype loads_result =
    Parsed json
  | DecodeError string
  | LoadsRaises string

text \<open>
  \<open>now_check\<close> is the value of \<open>datetime.now()\<close> at line 76, \<open>now_stamp\<close> its value at
  line 78 or line 80 (one call of \<open>check_usage_limit\<close> runs at most one of the two).
  \<open>fromisoformat s\<close> is \<open>Inr t\<close> when \<open>datetime.fromisoformat(s)\<close> is the naive datetime
  \<open>t\<close>, and \<open>Inl e\<close> when lines 75-76 raise \<open>e\<close> instead (the string is not in ISO format,
  or it carries an offset and cannot be compared with \<open>datetime.now()\<close>).
  \<open>coerce_responses\<close> is what pydantic makes of a value that is not already a list of
  dicts when it validates the field \<open>responses: List[dict]\<close> (\<open>None\<close>: it rejects it).
\<close>

record env =
  now_check :: datetime
  now_stamp :: datetime
  fromisoformat :: "string \<Rightarrow> error + datetime"
  isoformat :: "datetime \<Rightarrow> string"
  provider :: "string \<Rightarrow> provider_result"
  json_loads :: "string \<Rightarrow> loads_result"
  coerce_responses :: "json \<Rightarrow> json list option"

subsection \<open>In-memory storage (lines 51-52)\<close>

text \<open>
  \<open>users_db\<close> maps a user id to the dict of a profile, \<open>api_keys_db\<close> an API key to a user
  id. A stored dict is one that \<open>UserProfile(**profile_data)\<close> accepts, so it is held as
  the profile it is read back to.
\<close>

record state =
  users_db :: "string \<rightharpoonup> UserProfile"
  api_keys_db :: "string \<rightharpoonup> string"

subsection \<open>Subscription limits (lines 55-59)\<close>

record tier_policy =
  monthly_limit :: int
  response_count :: int

definition TIER_LIMITS :: "string \<rightharpoonup> tier_policy" where
  "TIER_LIMITS =
     [''free'' \<mapsto> \<lparr>monthly_limit = 10, response_count = 3\<rparr>,
      ''pro'' \<mapsto> \<lparr>monthly_limit = 500, response_count = 3\<rparr>,
      ''enterprise'' \<mapsto> \<lparr>monthly_limit = -1, response_count = 5\<rparr>]"

text \<open>The subscript \<open>TIER_LIMITS[tier]\<close>: a missing key raises \<open>KeyError\<close>.\<close>

definition TIER_LIMITS_getitem :: "string \<Rightarrow> error + tier_policy" where
  "TIER_LIMITS_getitem tier =
     (case TIER_LIMITS tier of None \<Rightarrow> Inl (KeyError tier) | Some pol \<Rightarrow> Inr pol)"

subsection \<open>Strings\<close>

text \<open>\<open>str(n)\<close> for an \<open>int\<close>.\<close>

fun str_nat :: "nat \<Rightarrow> string" where
  "str_nat n =
     (if n < 10 then [''0123456789'' ! n]
      else str_nat (n div 10) @ [''0123456789'' ! (n mod 10)])"

declare str_nat.simps [simp del]

definition str_int :: "int \<Rightarrow> string" where
  "str_int i = (if i < 0 then ''-'' @ str_nat (nat (- i)) else str_nat (nat i))"

text \<open>
  \<open>s.replace(old, new)\<close>: the occurrences of \<open>old\<close> are found from the left and do not
  overlap; an empty \<open>old\<close> matches before every character and at the end.
\<close>

function replace_from :: "string \<Rightarrow> string \<Rightarrow> string \<Rightarrow> string" where
  "replace_from old new [] = []"
| "replace_from old new (c # cs) =
     (if old \<noteq> [] \<and> take (length old) (c # cs) = old
      then new @ replace_from old new (drop (length old) (c # cs))
      else c # replace_from old new cs)"
  by pat_completeness auto
termination
  by (relation "measure (\<lambda>(old, new, s). length s)") auto

definition replace :: "string \<Rightarrow> string \<Rightarrow> string \<Rightarrow> string" where
  "replace s old new =
     (if old = [] then new @ concat (map (\<lambda>c. c # new) s) else replace_from old new s)"

text \<open>
  \<open>s.strip()\<close>: the characters of which \<open>str.isspace\<close> is true are removed at both ends.
  Below 256 these are the code points 0x09-0x0D, 0x1C-0x1F, 0x20, 0x85 and 0xA0.
\<close>

definition isspace :: "char \<Rightarrow> bool" where
  "isspace c = (c \<in> set [CHR 0x09, CHR 0x0A, CHR 0x0B, CHR 0x0C, CHR 0x0D,
                            CHR 0x1C, CHR 0x1D, CHR 0x1E, CHR 0x1F, CHR 0x20,
                            CHR 0x85, CHR 0xA0])"

definition strip :: "string \<Rightarrow> string" where
  "strip s = rev (dropWhile isspace (rev (dropWhile isspace s)))"

text \<open>The lines of a multi-line literal, joined by the newline between them.\<close>

fun join_lines :: "string list \<Rightarrow> string" where
  "join_lines [] = []"
| "join_lines [l] = l"
| "join_lines (l # ls) = l @ [CHR 0x0A] @ join_lines ls"

text \<open>\<open>x or d\<close> for an \<open>Optional[str]\<close>: \<open>None\<close> and the empty string are false.\<close>

definition or_else :: "string option \<Rightarrow> string \<Rightarrow> string" where
  "or_else x d = (case x of None \<Rightarrow> d | Some s \<Rightarrow> if s = [] then d else s)"

text \<open>\<open>d.get(key, default)\<close> on a dict.\<close>

definition dict_get :: "(string \<times> json) list \<Rightarrow> string \<Rightarrow> json \<Rightarrow> json" where
  "dict_get d k dflt = (case map_of d k of None \<Rightarrow> dflt | Some v \<Rightarrow> v)"

text \<open>\<open>type(v).__name__\<close>, as the message of an \<open>AttributeError\<close> prints it.\<close>

fun type_name :: "json \<Rightarrow> string" where
  "type_name JNull = ''NoneType''"
| "type_name (JBool b) = ''bool''"
| "type_name (JInt i) = ''int''"
| "type_name (JFloat f) = ''float''"
| "type_name (JStr s) = ''str''"
| "type_name (JArr xs) = ''list''"
| "type_name (JObj kvs) = ''dict''"

subsection \<open>Helper functions (lines 63-88)\<close>

definition verify_api_key :: "state \<Rightarrow> string \<Rightarrow> error + string" where
  "verify_api_key s x_api_key =
     (case api_keys_db s x_api_key of
        None \<Rightarrow> Inl (HTTPException 401 ''Invalid API key'')
      | Some uid \<Rightarrow> Inr uid)"

text \<open>
  Lines 73-80 of \<open>check_usage_limit\<close>, "Reset counter if new month": the profile as these
  lines leave it, or the exception of lines 75-76, raised before anything is assigned.
  An empty string is false at line 74, as \<open>None\<close> is.
\<close>

definition reset_counter_if_new_month :: "env \<Rightarrow> UserProfile \<Rightarrow> error + UserProfile" where
  "reset_counter_if_new_month env user =
     (let stamped = Some (isoformat env (now_stamp env + timedelta_days 30)) in
      case usage_reset_date user of
        None \<Rightarrow> Inr (user\<lparr>usage_reset_date := stamped\<rparr>)
      | Some d \<Rightarrow>
          if d = [] then Inr (user\<lparr>usage_reset_date := stamped\<rparr>)
          else (case fromisoformat env d of
                  Inl e \<Rightarrow> Inl e
                | Inr reset_date \<Rightarrow>
                    if now_check env > reset_date
                    then Inr (user\<lparr>usage_count := 0, usage_reset_date := stamped\<rparr>)
                    else Inr user))"

text \<open>
  \<open>check_usage_limit\<close> returns \<open>remaining\<close> or raises, and mutates \<open>user\<close> on the way:
  the second component is \<open>user\<close> as the call leaves it.
\<close>

definition check_usage_limit :: "env \<Rightarrow> UserProfile \<Rightarrow> (error + int) \<times> UserProfile" where
  "check_usage_limit env user =
     (case TIER_LIMITS_getitem (subscription_tier user) of
        Inl e \<Rightarrow> (Inl e, user)
      | Inr pol \<Rightarrow>
          let tier_limit = monthly_limit pol in
          (case reset_counter_if_new_month env user of
             Inl e \<Rightarrow> (Inl e, user)
           | Inr user' \<Rightarrow>
               if tier_limit \<noteq> -1 \<and> usage_count user' \<ge> tier_limit
               then (Inl (HTTPException 429
                        ''Monthly limit reached. Upgrade to Pro for 500 responses/month''), user')
               else (Inr (if tier_limit \<noteq> -1 then tier_limit - usage_count user' else 999),
                     user')))"

subsection \<open>Response generation (lines 90-174)\<close>

text \<open>Line 94, the sentiment detection.\<close>

definition sentiment_of :: "int \<Rightarrow> string" where
  "sentiment_of r = (if r \<ge> 4 then ''positive'' else if r \<le> 2 then ''negative'' else ''neutral'')"

text \<open>Lines 97-128: the prompt, for the \<open>response_count\<close> of the profile's tier.\<close>

definition build_prompt :: "ReviewInput \<Rightarrow> UserProfile \<Rightarrow> string \<Rightarrow> int \<Rightarrow> string" where
  \<open>build_prompt review profile sentiment n_responses =
     (let brand_context =
            (case brand_voice profile of
               None \<Rightarrow> []
             | Some v \<Rightarrow> if v = [] then [] else [CHR 0x0A, CHR 0x0A] @ ''Brand Voice: '' @ v);
          signature_line =
            (case signature profile of
               None \<Rightarrow> []
             | Some g \<Rightarrow> if g = [] then [] else [CHR 0x0A, CHR 0x0A] @ ''Always end with: '' @ g)
      in join_lines
        [''You are responding to a '' @ sentiment @ '' review for '' @ business_name profile
            @ '', a '' @ business_type profile @ ''.'',
         [],
         ''Review ('' @ str_int (rating review) @ '' stars) from ''
            @ or_else (reviewer_name review) ''customer'' @ '' on '' @ platform review @ '':'',
         ''"'' @ review_text review @ ''"'',
         brand_context @ signature_line,
         [],
         ''Generate '' @ str_int n_responses @ '' different response options with a ''
            @ tone profile @ '' tone:'',
         [],
         ''1. Short & Sweet (1-2 sentences) - Quick, warm acknowledgment'',
         ''2. Detailed & Personal (3-4 sentences) - Shows you read and care'',
         ''3. Professional & Branded (2-3 sentences with subtle CTA)'',
         [],
         ''IMPORTANT RULES:'',
         ''- For negative reviews: Acknowledge issue, apologize sincerely, offer solution'',
         ''- For positive reviews: Thank genuinely, reinforce specific points they mentioned'',
         ''- Match the energy level of the review'',
         ''- Never be defensive or robotic'',
         ''- Include specific details from their review'',
         [],
         ''Return ONLY valid JSON with no markdown formatting:'',
         ''{'',
         ''  "responses": ['',
         ''    {"style": "Short & Sweet", "text": "response here"},'',
         ''    {"style": "Detailed & Personal", "text": "response here"},'',
         ''    {"style": "Professional & Branded", "text": "response here"}'',
         ''  ]'',
         ''}''])\<close>

text \<open>Lines 158-171: the list returned by the \<open>JSONDecodeError\<close> handler.\<close>

definition fallback_responses :: "ReviewInput \<Rightarrow> UserProfile \<Rightarrow> string \<Rightarrow> json" where
  "fallback_responses review profile sentiment =
     JArr
       [JObj [(''style'', JStr ''Short & Sweet''),
              (''text'', JStr (''Thank you for your '' @ str_int (rating review)
                 @ ''-star review! We appreciate your feedback. ''
                 @ or_else (signature profile) []))],
        JObj [(''style'', JStr ''Detailed & Personal''),
              (''text'', JStr (''Thank you for taking the time to share your experience at ''
                 @ business_name profile @ ''. We're ''
                 @ (if sentiment = ''positive'' then ''thrilled''
                    else ''sorry to hear about your experience and would love to make it right'')
                 @ ''. '' @ or_else (signature profile) []))],
        JObj [(''style'', JStr ''Professional & Branded''),
              (''text'', JStr (''We appreciate your feedback. ''
                 @ (if sentiment = ''positive''
                    then ''Your satisfaction is our priority and we hope to see you again soon!''
                    else ''We take all feedback seriously and would love the opportunity to improve. Please contact us directly.'')
                 @ '' '' @ or_else (signature profile) []))]]"

text \<open>
  \<open>generate_ai_responses\<close>. The value returned at line 153 is whatever the key
  \<open>"responses"\<close> holds; \<open>parsed.get\<close> on a value that is not a dict raises
  \<open>AttributeError\<close>, which the handler at line 172 turns into the 500 as it does every
  exception other than \<open>JSONDecodeError\<close>.
\<close>

definition generate_failed :: "string \<Rightarrow> error" where
  "generate_failed msg = HTTPException 500 (''AI generation failed: '' @ msg)"

definition no_attribute_get :: "json \<Rightarrow> string" where
  "no_attribute_get v =
     [CHR 0x27] @ type_name v @ [CHR 0x27] @ '' object has no attribute ''
       @ [CHR 0x27] @ ''get'' @ [CHR 0x27]"

text \<open>Line 150: the text handed to \<open>json.loads\<close>.\<close>

definition clean_text :: "string \<Rightarrow> string" where
  "clean_text response_text = strip (replace (replace response_text ''```json'' []) ''```'' [])"

definition generate_ai_responses :: "env \<Rightarrow> ReviewInput \<Rightarrow> UserProfile \<Rightarrow> error + json" where
  "generate_ai_responses env review profile =
     (let sentiment = sentiment_of (rating review) in
      case TIER_LIMITS_getitem (subscription_tier profile) of
        Inl e \<Rightarrow> Inl e
      | Inr pol \<Rightarrow>
          let prompt = build_prompt review profile sentiment (response_count pol) in
          (case provider env prompt of
             Raises msg \<Rightarrow> Inl (generate_failed msg)
           | RaisesJSONDecodeError msg \<Rightarrow> Inr (fallback_responses review profile sentiment)
           | Returns response_text \<Rightarrow>
               (case json_loads env (clean_text response_text) of
                  DecodeError msg \<Rightarrow> Inr (fallback_responses review profile sentiment)
                | LoadsRaises msg \<Rightarrow> Inl (generate_failed msg)
                | Parsed parsed \<Rightarrow>
                    (case parsed of
                       JObj d \<Rightarrow> Inr (dict_get d ''responses'' (JArr []))
                     | _ \<Rightarrow> Inl (generate_failed (no_attribute_get parsed))))))"

text \<open>
  The calls of \<open>generate_ai_responses\<close> that end in the handler of line 155: a
  \<open>JSONDecodeError\<close> was raised inside the \<open>try\<close> block.
\<close>

definition fallback_path :: "env \<Rightarrow> ReviewInput \<Rightarrow> UserProfile \<Rightarrow> bool" where
  "fallback_path env review profile =
     (case TIER_LIMITS (subscription_tier profile) of
        None \<Rightarrow> False
      | Some pol \<Rightarrow>
          (case provider env
                  (build_prompt review profile (sentiment_of (rating review)) (response_count pol)) of
             Raises msg \<Rightarrow> False
           | RaisesJSONDecodeError msg \<Rightarrow> True
           | Returns response_text \<Rightarrow>
               (case json_loads env (clean_text response_text) of
                  DecodeError msg \<Rightarrow> True
                | LoadsRaises msg \<Rightarrow> False
                | Parsed parsed \<Rightarrow> False)))"

subsection \<open>API endpoints (lines 212-235 and 253-268)\<close>

text \<open>
  The validation of \<open>responses: List[dict]\<close> when \<open>ResponseOutput\<close> is built at line 232:
  a list of dicts is taken as it is.
\<close>

fun is_dict :: "json \<Rightarrow> bool" where
  "is_dict (JObj d) = True"
| "is_dict _ = False"

definition validate_responses :: "env \<Rightarrow> json \<Rightarrow> json list option" where
  "validate_responses env v =
     (case v of
        JArr xs \<Rightarrow> if list_all is_dict xs then Some xs else coerce_responses env v
      | _ \<Rightarrow> coerce_responses env v)"

text \<open>
  \<open>generate_responses\<close>: the result or the exception, and the two dictionaries as the
  request leaves them. \<open>profile\<close> is an object of its own, built from the stored dict at
  line 220; \<open>users_db\<close> is written at line 230 only.
\<close>

definition generate_responses ::
  "env \<Rightarrow> state \<Rightarrow> ReviewInput \<Rightarrow> string \<Rightarrow> (error + ResponseOutput) \<times> state" where
  "generate_responses env s review x_api_key =
     (case verify_api_key s x_api_key of
        Inl e \<Rightarrow> (Inl e, s)
      | Inr uid \<Rightarrow>
          (case users_db s uid of
             None \<Rightarrow> (Inl (HTTPException 404 ''User not found''), s)
           | Some profile_data \<Rightarrow>
               (case check_usage_limit env profile_data of
                  (Inl e, profile) \<Rightarrow> (Inl e, s)
                | (Inr remaining, profile) \<Rightarrow>
                    (case generate_ai_responses env review profile of
                       Inl e \<Rightarrow> (Inl e, s)
                     | Inr rs \<Rightarrow>
                         let profile' = profile\<lparr>usage_count := usage_count profile + 1\<rparr>;
                             s' = s\<lparr>users_db := (users_db s)(uid \<mapsto> profile')\<rparr>
                         in (case validate_responses env rs of
                               None \<Rightarrow> (Inl (ValidationError ''responses''), s')
                             | Some checked \<Rightarrow>
                                 (Inr \<lparr>responses = checked, usage_remaining = remaining - 1\<rparr>,
                                  s'))))))"

text \<open>
  \<open>upgrade_subscription\<close> returns the message and \<open>new_limit\<close>.
\<close>

definition upgrade_subscription ::
  "state \<Rightarrow> string \<Rightarrow> string \<Rightarrow> (error + string \<times> int) \<times> state" where
  "upgrade_subscription s tier x_api_key =
     (case verify_api_key s x_api_key of
        Inl e \<Rightarrow> (Inl e, s)
      | Inr uid \<Rightarrow>
          (case TIER_LIMITS tier of
             None \<Rightarrow> (Inl (HTTPException 400 ''Invalid tier''), s)
           | Some pol \<Rightarrow>
               (case users_db s uid of
                  None \<Rightarrow> (Inl (HTTPException 404 ''User not found''), s)
                | Some profile_data \<Rightarrow>
                    (Inr (''Upgraded to '' @ tier, monthly_limit pol),
                     s\<lparr>users_db := (users_db s)(uid \<mapsto> profile_data\<lparr>subscription_tier := tier\<rparr>)\<rparr>))))"

subsection \<open>Concrete inputs\<close>

text \<open>
  The instants of the examples are counted from 2024-01-01T00:00:00: day 60 is
  2024-03-01, day 90 is 2024-03-31 (2024 is a leap year). The two codec tables hold
  these three instants; no example leaves the tables.
\<close>

definition example_fromisoformat :: "string \<Rightarrow> error + datetime" where
  "example_fromisoformat d =
     (if d = ''2024-01-01T00:00:00'' then Inr 0
      else if d = ''2024-03-01T00:00:00'' then Inr (timedelta_days 60)
      else if d = ''2024-03-31T00:00:00'' then Inr (timedelta_days 90)
      else Inl (ValueError (''Invalid isoformat string: '' @ d)))"

definition example_isoformat :: "datetime \<Rightarrow> string" where
  "example_isoformat t =
     (if t = 0 then ''2024-01-01T00:00:00''
      else if t = timedelta_days 60 then ''2024-03-01T00:00:00''
      else if t = timedelta_days 90 then ''2024-03-31T00:00:00''
      else [])"

text \<open>
  A provider answer in code fences, a provider answer of 5000 digits, and \<open>json.loads\<close>
  at the three texts the examples hand to it: the dict of the fenced answer, the
  integer literal beyond the limit of \<open>int\<close>, on which \<open>json.loads\<close> raises
  \<open>ValueError\<close>, and a sentence that is not JSON.
\<close>

definition example_fenced :: string where
  \<open>example_fenced = ''```json'' @ [CHR 0x0A] @ ''{"replies": []}'' @ [CHR 0x0A] @ ''```''\<close>

definition example_digits :: string where
  "example_digits = replicate 5000 (CHR ''1'')"

definition example_json_loads :: "string \<Rightarrow> loads_result" where
  \<open>example_json_loads t =
     (if t = ''{"replies": []}'' then Parsed (JObj [(''replies'', JArr [])])
      else if t = example_digits
      then LoadsRaises ''Exceeds the limit (4300 digits) for integer string conversion: value has 5000 digits; use sys.set_int_max_str_digits() to increase the limit''
      else DecodeError ''Expecting value: line 1 column 1 (char 0)'')\<close>

text \<open>
  An environment whose clock stands at 2024-03-01T00:00:00 and whose provider does \<open>pr\<close> on
  every prompt.
\<close>

definition example_env :: "provider_result \<Rightarrow> env" where
  "example_env pr =
     \<lparr>now_check = timedelta_days 60, now_stamp = timedelta_days 60,
      fromisoformat = example_fromisoformat, isoformat = example_isoformat,
      provider = (\<lambda>prompt. pr), json_loads = example_json_loads,
      coerce_responses = (\<lambda>v. None)\<rparr>"

definition example_profile :: "string \<Rightarrow> int \<Rightarrow> string option \<Rightarrow> UserProfile" where
  "example_profile tier n d =
     \<lparr>user_id = ''u1'', business_name = ''Cafe Luna'', business_type = ''cafe'',
      tone = ''professional'', brand_voice = None, signature = Some ''- The Team'',
      subscription_tier = tier, usage_count = n, usage_reset_date = d\<rparr>"

definition example_review :: ReviewInput where
  "example_review =
     \<lparr>review_text = ''Great coffee'', rating = 5, reviewer_name = None,
      platform = ''google'', review_context = None\<rparr>"

definition example_state :: "UserProfile \<Rightarrow> state" where
  "example_state p = \<lparr>users_db = [''u1'' \<mapsto> p], api_keys_db = [''rr_u1_00'' \<mapsto> ''u1'']\<rparr>"

section \<open>Properties\<close>

subsection \<open>The tier table\<close>

lemma TIER_LIMITS_free: "TIER_LIMITS ''free'' = Some \<lparr>monthly_limit = 10, response_count = 3\<rparr>"
  by (simp add: TIER_LIMITS_def)

lemma TIER_LIMITS_pro: "TIER_LIMITS ''pro'' = Some \<lparr>monthly_limit = 500, response_count = 3\<rparr>"
  by (simp add: TIER_LIMITS_def)

lemma TIER_LIMITS_enterprise:
  "TIER_LIMITS ''enterprise'' = Some \<lparr>monthly_limit = -1, response_count = 5\<rparr>"
  by (simp add: TIER_LIMITS_def)

lemma TIER_LIMITS_other:
  "t \<noteq> ''free'' \<Longrightarrow> t \<noteq> ''pro'' \<Longrightarrow> t \<noteq> ''enterprise'' \<Longrightarrow> TIER_LIMITS t = None"
  by (simp add: TIER_LIMITS_def)

lemma TIER_LIMITS_Some:
  assumes "TIER_LIMITS t = Some pol"
  shows "t = ''free'' \<and> pol = \<lparr>monthly_limit = 10, response_count = 3\<rparr>
       \<or> t = ''pro'' \<and> pol = \<lparr>monthly_limit = 500, response_count = 3\<rparr>
       \<or> t = ''enterprise'' \<and> pol = \<lparr>monthly_limit = -1, response_count = 5\<rparr>"
proof -
  consider "t = ''free''" | "t = ''pro''" | "t = ''enterprise''"
    | "t \<noteq> ''free''" "t \<noteq> ''pro''" "t \<noteq> ''enterprise''"
    by blast
  then show ?thesis
  proof cases
    case 1
    with assms show ?thesis by (simp add: TIER_LIMITS_free)
  next
    case 2
    with assms show ?thesis by (simp add: TIER_LIMITS_pro)
  next
    case 3
    with assms show ?thesis by (simp add: TIER_LIMITS_enterprise)
  next
    case 4
    with assms show ?thesis by (simp add: TIER_LIMITS_other)
  qed
qed

text \<open>
  C7. The table gives (10, 3) for \<open>free\<close>, (500, 3) for \<open>pro\<close> and (-1, 5), -1 standing
  for unlimited, for \<open>enterprise\<close>; the lookup of any other tier raises (\<open>KeyError\<close> on
  the subscript), and an upgrade request for such a tier leaves both dictionaries as
  they were and, from an authenticated caller, is refused with the 400 "Invalid tier".
  The lookup is a function of the tier alone: it reads and writes no state.
\<close>

theorem tier_policy_table:
  "TIER_LIMITS_getitem ''free'' = Inr \<lparr>monthly_limit = 10, response_count = 3\<rparr>
   \<and> TIER_LIMITS_getitem ''pro'' = Inr \<lparr>monthly_limit = 500, response_count = 3\<rparr>
   \<and> TIER_LIMITS_getitem ''enterprise'' = Inr \<lparr>monthly_limit = -1, response_count = 5\<rparr>
   \<and> (t \<notin> {''free'', ''pro'', ''enterprise''} \<longrightarrow>
        TIER_LIMITS_getitem t = Inl (KeyError t)
        \<and> (\<forall>s key. snd (upgrade_subscription s t key) = s)
        \<and> (\<forall>s key uid. api_keys_db s key = Some uid \<longrightarrow>
              upgrade_subscription s t key = (Inl (HTTPException 400 ''Invalid tier''), s)))"
  by (simp add: TIER_LIMITS_getitem_def TIER_LIMITS_free TIER_LIMITS_pro TIER_LIMITS_enterprise
      TIER_LIMITS_other upgrade_subscription_def verify_api_key_def split: option.split)

theorem tier_policy_table_witness:
  "TIER_LIMITS_getitem ''platinum'' = Inl (KeyError ''platinum'')
   \<and> upgrade_subscription (example_state (example_profile ''free'' 0 None)) ''platinum'' ''rr_u1_00''
       = (Inl (HTTPException 400 ''Invalid tier''), example_state (example_profile ''free'' 0 None))"
proof -
  have k: "api_keys_db (example_state (example_profile ''free'' 0 None)) ''rr_u1_00'' = Some ''u1''"
    by (simp add: example_state_def)
  have n: "''platinum'' \<notin> {''free'', ''pro'', ''enterprise''}"
    by simp
  from tier_policy_table [of "''platinum''"] n k show ?thesis
    by blast
qed

subsection \<open>Sentiment\<close>

text \<open>
  C2. For every integer rating \<open>r\<close>, in the range 1-5 or not, the sentiment of line 94 is
  \<open>positive\<close> when \<open>r \<ge> 4\<close>, \<open>negative\<close> when \<open>r \<le> 2\<close> and \<open>neutral\<close> when \<open>r = 3\<close>;
  it is always one of the three.
\<close>

theorem sentiment_classification:
  "(r \<ge> 4 \<longrightarrow> sentiment_of r = ''positive'')
   \<and> (r \<le> 2 \<longrightarrow> sentiment_of r = ''negative'')
   \<and> (r = 3 \<longrightarrow> sentiment_of r = ''neutral'')
   \<and> sentiment_of r \<in> {''positive'', ''negative'', ''neutral''}"
  by (simp add: sentiment_of_def)

theorem sentiment_classification_witness:
  "sentiment_of 5 = ''positive'' \<and> sentiment_of 4 = ''positive''
   \<and> sentiment_of 3 = ''neutral''
   \<and> sentiment_of 2 = ''negative'' \<and> sentiment_of 1 = ''negative''
   \<and> sentiment_of 0 = ''negative'' \<and> sentiment_of (- 7) = ''negative''
   \<and> sentiment_of 6 = ''positive''"
  using sentiment_classification [of 5] sentiment_classification [of 4]
    sentiment_classification [of 3] sentiment_classification [of 2]
    sentiment_classification [of 1] sentiment_classification [of 0]
    sentiment_classification [of "- 7"] sentiment_classification [of 6]
  by simp

subsection \<open>The usage check\<close>

lemma getitem_Some: "TIER_LIMITS t = Some pol \<Longrightarrow> TIER_LIMITS_getitem t = Inr pol"
  by (simp add: TIER_LIMITS_getitem_def)

lemma reset_unset:
  "usage_reset_date u = None \<or> usage_reset_date u = Some [] \<Longrightarrow>
   reset_counter_if_new_month env u =
     Inr (u\<lparr>usage_reset_date := Some (isoformat env (now_stamp env + timedelta_days 30))\<rparr>)"
  by (auto simp: reset_counter_if_new_month_def)

lemma reset_past:
  "usage_reset_date u = Some d \<Longrightarrow> d \<noteq> [] \<Longrightarrow> fromisoformat env d = Inr t \<Longrightarrow>
   t < now_check env \<Longrightarrow>
   reset_counter_if_new_month env u =
     Inr (u\<lparr>usage_count := 0,
            usage_reset_date := Some (isoformat env (now_stamp env + timedelta_days 30))\<rparr>)"
  by (simp add: reset_counter_if_new_month_def)

lemma reset_not_past:
  "usage_reset_date u = Some d \<Longrightarrow> d \<noteq> [] \<Longrightarrow> fromisoformat env d = Inr t \<Longrightarrow>
   \<not> t < now_check env \<Longrightarrow> reset_counter_if_new_month env u = Inr u"
  by (simp add: reset_counter_if_new_month_def)

lemma check_snd:
  "TIER_LIMITS (subscription_tier u) = Some pol \<Longrightarrow> reset_counter_if_new_month env u = Inr u' \<Longrightarrow>
   snd (check_usage_limit env u) = u'"
  by (simp add: check_usage_limit_def getitem_Some Let_def)

lemma check_exceeded:
  "TIER_LIMITS (subscription_tier u) = Some pol \<Longrightarrow> reset_counter_if_new_month env u = Inr u' \<Longrightarrow>
   monthly_limit pol \<noteq> -1 \<Longrightarrow> monthly_limit pol \<le> usage_count u' \<Longrightarrow>
   check_usage_limit env u =
     (Inl (HTTPException 429 ''Monthly limit reached. Upgrade to Pro for 500 responses/month''), u')"
  by (simp add: check_usage_limit_def getitem_Some Let_def)

lemma check_passed:
  "TIER_LIMITS (subscription_tier u) = Some pol \<Longrightarrow> reset_counter_if_new_month env u = Inr u' \<Longrightarrow>
   \<not> (monthly_limit pol \<noteq> -1 \<and> monthly_limit pol \<le> usage_count u') \<Longrightarrow>
   check_usage_limit env u =
     (Inr (if monthly_limit pol \<noteq> -1 then monthly_limit pol - usage_count u' else 999), u')"
  by (simp add: check_usage_limit_def getitem_Some Let_def)

lemma check_Inr_cases:
  assumes "check_usage_limit env u = (Inr r, u')"
  obtains pol where "TIER_LIMITS (subscription_tier u) = Some pol"
    and "reset_counter_if_new_month env u = Inr u'"
    and "\<not> (monthly_limit pol \<noteq> -1 \<and> monthly_limit pol \<le> usage_count u')"
    and "r = (if monthly_limit pol \<noteq> -1 then monthly_limit pol - usage_count u' else 999)"
  using assms
  by (auto simp: check_usage_limit_def TIER_LIMITS_getitem_def Let_def
      split: option.splits sum.splits if_splits)

lemma reset_ignores_provider:
  "reset_counter_if_new_month (env\<lparr>provider := p\<rparr>) u = reset_counter_if_new_month env u"
  by (simp add: reset_counter_if_new_month_def Let_def split: option.split sum.split)

lemma check_ignores_provider:
  "check_usage_limit (env\<lparr>provider := p\<rparr>) u = check_usage_limit env u"
  unfolding check_usage_limit_def reset_ignores_provider by (rule refl)

lemma example_reset_none:
  "reset_counter_if_new_month (example_env pr) (example_profile tier n None)
     = Inr (example_profile tier n (Some ''2024-03-31T00:00:00''))"
  by (simp add: reset_counter_if_new_month_def example_env_def example_profile_def
      example_isoformat_def timedelta_days_def)

lemma example_reset_past:
  "reset_counter_if_new_month (example_env pr)
       (example_profile tier n (Some ''2024-01-01T00:00:00''))
     = Inr (example_profile tier 0 (Some ''2024-03-31T00:00:00''))"
  by (simp add: reset_counter_if_new_month_def example_env_def example_profile_def
      example_isoformat_def example_fromisoformat_def timedelta_days_def)

lemma example_tier [simp]: "subscription_tier (example_profile tier n d) = tier"
  by (simp add: example_profile_def)

lemma example_count [simp]: "usage_count (example_profile tier n d) = n"
  by (simp add: example_profile_def)

lemma example_date [simp]: "usage_reset_date (example_profile tier n d) = d"
  by (simp add: example_profile_def)

text \<open>
  C5. For a profile of a known tier: when the reset date is unset (\<open>None\<close>, or the empty
  string, which line 74 treats alike), one call of \<open>check_usage_limit\<close> leaves the profile
  with the reset date \<open>now + 30 days\<close> and everything else, the usage count too, as it
  was; when the reset date is an instant before \<open>now\<close>, the call leaves it with the usage
  count 0 and the reset date \<open>now + 30 days\<close>. This is so whether the call then returns
  or raises the 429.
\<close>

theorem first_use_and_rollover:
  assumes "TIER_LIMITS (subscription_tier u) = Some pol"
  shows "((usage_reset_date u = None \<or> usage_reset_date u = Some []) \<longrightarrow>
            snd (check_usage_limit env u)
              = u\<lparr>usage_reset_date := Some (isoformat env (now_stamp env + timedelta_days 30))\<rparr>)
       \<and> (\<forall>d t. usage_reset_date u = Some d \<and> d \<noteq> [] \<and> fromisoformat env d = Inr t
                  \<and> t < now_check env \<longrightarrow>
            snd (check_usage_limit env u)
              = u\<lparr>usage_count := 0,
                   usage_reset_date := Some (isoformat env (now_stamp env + timedelta_days 30))\<rparr>)"
proof (intro conjI impI allI)
  assume "usage_reset_date u = None \<or> usage_reset_date u = Some []"
  then show "snd (check_usage_limit env u)
      = u\<lparr>usage_reset_date := Some (isoformat env (now_stamp env + timedelta_days 30))\<rparr>"
    using assms by (simp add: check_snd reset_unset)
next
  fix d t
  assume "usage_reset_date u = Some d \<and> d \<noteq> [] \<and> fromisoformat env d = Inr t \<and> t < now_check env"
  then show "snd (check_usage_limit env u)
      = u\<lparr>usage_count := 0,
           usage_reset_date := Some (isoformat env (now_stamp env + timedelta_days 30))\<rparr>"
    using assms by (simp add: check_snd reset_past)
qed

theorem first_use_and_rollover_witness:
  "snd (check_usage_limit (example_env (Raises [])) (example_profile ''free'' 7 None))
     = example_profile ''free'' 7 (Some ''2024-03-31T00:00:00'')
   \<and> snd (check_usage_limit (example_env (Raises []))
            (example_profile ''free'' 10 (Some ''2024-01-01T00:00:00'')))
     = example_profile ''free'' 0 (Some ''2024-03-31T00:00:00'')"
proof -
  let ?env = "example_env (Raises [])"
  have iso: "isoformat ?env (now_stamp ?env + timedelta_days 30) = ''2024-03-31T00:00:00''"
    by (simp add: example_env_def example_isoformat_def timedelta_days_def)
  have past: "fromisoformat ?env ''2024-01-01T00:00:00'' = Inr 0 \<and> 0 < now_check ?env"
    by (simp add: example_env_def example_fromisoformat_def timedelta_days_def)
  have a: "snd (check_usage_limit ?env (example_profile ''free'' 7 None))
     = (example_profile ''free'' 7 None)\<lparr>usage_reset_date := Some ''2024-03-31T00:00:00''\<rparr>"
    using first_use_and_rollover [of "example_profile ''free'' 7 None" _ ?env] TIER_LIMITS_free iso
    by simp
  have b: "snd (check_usage_limit ?env (example_profile ''free'' 10 (Some ''2024-01-01T00:00:00'')))
     = (example_profile ''free'' 10 (Some ''2024-01-01T00:00:00''))
         \<lparr>usage_count := 0, usage_reset_date := Some ''2024-03-31T00:00:00''\<rparr>"
    using first_use_and_rollover
      [of "example_profile ''free'' 10 (Some ''2024-01-01T00:00:00'')" _ ?env]
      TIER_LIMITS_free iso past
    by simp
  from a b show ?thesis
    by (simp add: example_profile_def)
qed

text \<open>
  C8. When \<open>check_usage_limit\<close> returns, the tier is in the table; for a finite quota
  the value returned is the quota minus the usage count (the count as the call leaves
  it, that is after a rollover), which is positive, and it is not below the quota minus
  the count the profile came with when that count is not negative; for the unlimited
  quota (-1) the value is the sentinel 999.
\<close>

theorem remaining_quota:
  assumes "check_usage_limit env u = (Inr r, u')"
  shows "\<exists>pol. TIER_LIMITS (subscription_tier u) = Some pol
           \<and> (monthly_limit pol \<noteq> -1 \<longrightarrow>
                 r = monthly_limit pol - usage_count u' \<and> 0 < r
                 \<and> (0 \<le> usage_count u \<longrightarrow> monthly_limit pol - usage_count u \<le> r))
           \<and> (monthly_limit pol = -1 \<longrightarrow> r = 999)"
proof -
  from assms obtain pol where pol: "TIER_LIMITS (subscription_tier u) = Some pol"
    and reset: "reset_counter_if_new_month env u = Inr u'"
    and ok: "\<not> (monthly_limit pol \<noteq> -1 \<and> monthly_limit pol \<le> usage_count u')"
    and r: "r = (if monthly_limit pol \<noteq> -1 then monthly_limit pol - usage_count u' else 999)"
    by (rule check_Inr_cases)
  from reset have "usage_count u' = usage_count u \<or> usage_count u' = 0"
    by (auto simp: reset_counter_if_new_month_def Let_def split: option.splits sum.splits if_splits)
  with ok r have "monthly_limit pol \<noteq> -1 \<longrightarrow>
      r = monthly_limit pol - usage_count u' \<and> 0 < r
      \<and> (0 \<le> usage_count u \<longrightarrow> monthly_limit pol - usage_count u \<le> r)"
    by auto
  moreover from r have "monthly_limit pol = -1 \<longrightarrow> r = 999"
    by simp
  ultimately show ?thesis
    using pol by blast
qed

theorem remaining_quota_witness:
  "check_usage_limit (example_env (Raises [])) (example_profile ''free'' 7 None)
     = (Inr 3, example_profile ''free'' 7 (Some ''2024-03-31T00:00:00''))
   \<and> check_usage_limit (example_env (Raises []))
         (example_profile ''enterprise'' 4000 None)
     = (Inr 999, example_profile ''enterprise'' 4000 (Some ''2024-03-31T00:00:00''))
   \<and> (\<exists>pol. TIER_LIMITS ''free'' = Some pol \<and> 3 = monthly_limit pol - 7)
   \<and> (\<exists>pol. TIER_LIMITS ''enterprise'' = Some pol \<and> monthly_limit pol = -1)"
proof -
  let ?env = "example_env (Raises [])"
  have a: "check_usage_limit ?env (example_profile ''free'' 7 None)
      = (Inr 3, example_profile ''free'' 7 (Some ''2024-03-31T00:00:00''))"
  proof -
    have t: "TIER_LIMITS (subscription_tier (example_profile ''free'' 7 None))
        = Some \<lparr>monthly_limit = 10, response_count = 3\<rparr>"
      by (simp add: TIER_LIMITS_free)
    show ?thesis
      using check_passed [OF t example_reset_none] by simp
  qed
  have b: "check_usage_limit ?env (example_profile ''enterprise'' 4000 None)
      = (Inr 999, example_profile ''enterprise'' 4000 (Some ''2024-03-31T00:00:00''))"
  proof -
    have t: "TIER_LIMITS (subscription_tier (example_profile ''enterprise'' 4000 None))
        = Some \<lparr>monthly_limit = -1, response_count = 5\<rparr>"
      by (simp add: TIER_LIMITS_enterprise)
    show ?thesis
      using check_passed [OF t example_reset_none] by simp
  qed
  from remaining_quota [OF a] have c: "\<exists>pol. TIER_LIMITS ''free'' = Some pol \<and> 3 = monthly_limit pol - 7"
    by (auto simp: TIER_LIMITS_free)
  from remaining_quota [OF b] have d: "\<exists>pol. TIER_LIMITS ''enterprise'' = Some pol \<and> monthly_limit pol = -1"
    by (auto simp: TIER_LIMITS_enterprise)
  from a b c d show ?thesis by blast
qed

subsection \<open>The generate endpoint\<close>

lemma generate_responses_check_raises:
  assumes "api_keys_db s key = Some uid" and "users_db s uid = Some u"
    and "check_usage_limit env u = (Inl e, u')"
  shows "generate_responses env s review key = (Inl e, s)"
  using assms by (simp add: generate_responses_def verify_api_key_def)

lemma generate_responses_generation_raises:
  assumes "api_keys_db s key = Some uid" and "users_db s uid = Some u"
    and "check_usage_limit env u = (Inr remaining, u')"
    and "generate_ai_responses env review u' = Inl e"
  shows "generate_responses env s review key = (Inl e, s)"
  using assms by (simp add: generate_responses_def verify_api_key_def)

lemma generate_responses_returns:
  assumes "api_keys_db s key = Some uid" and "users_db s uid = Some u"
    and "check_usage_limit env u = (Inr remaining, u')"
    and "generate_ai_responses env review u' = Inr rs"
    and "validate_responses env rs = Some checked"
  shows "generate_responses env s review key =
           (Inr \<lparr>responses = checked, usage_remaining = remaining - 1\<rparr>,
            s\<lparr>users_db := (users_db s)(uid \<mapsto> u'\<lparr>usage_count := usage_count u' + 1\<rparr>)\<rparr>)"
  using assms by (simp add: generate_responses_def verify_api_key_def Let_def)

lemma generate_responses_stores:
  assumes "api_keys_db s key = Some uid" and "users_db s uid = Some u"
    and "check_usage_limit env u = (Inr remaining, u')"
    and "generate_ai_responses env review u' = Inr rs"
  shows "snd (generate_responses env s review key) =
            s\<lparr>users_db := (users_db s)(uid \<mapsto> u'\<lparr>usage_count := usage_count u' + 1\<rparr>)\<rparr>"
  using assms
  by (simp add: generate_responses_def verify_api_key_def Let_def split: option.split)


text \<open>
  C3. For a profile whose tier has a finite quota and whose usage count, as lines 73-80
  leave it, has reached the quota, \<open>check_usage_limit\<close> raises the 429; a request of an
  authenticated caller for that stored profile ends with the same 429 whatever the
  provider would do (it is not called), and both dictionaries, the stored usage count
  among them, are as before.
\<close>

theorem quota_exceeded:
  assumes "TIER_LIMITS (subscription_tier u) = Some pol" and "monthly_limit pol \<noteq> -1"
    and "reset_counter_if_new_month env u = Inr u'"
    and "monthly_limit pol \<le> usage_count u'"
  shows "fst (check_usage_limit env u)
           = Inl (HTTPException 429 ''Monthly limit reached. Upgrade to Pro for 500 responses/month'')
       \<and> (\<forall>s key uid review p.
             api_keys_db s key = Some uid \<and> users_db s uid = Some u \<longrightarrow>
             generate_responses (env\<lparr>provider := p\<rparr>) s review key
               = (Inl (HTTPException 429
                    ''Monthly limit reached. Upgrade to Pro for 500 responses/month''), s))"
proof -
  let ?e = "HTTPException 429 ''Monthly limit reached. Upgrade to Pro for 500 responses/month''"
  have c: "check_usage_limit env u = (Inl ?e, u')"
    using assms by (simp add: check_exceeded)
  have "generate_responses (env\<lparr>provider := p\<rparr>) s review key = (Inl ?e, s)"
    if "api_keys_db s key = Some uid" and "users_db s uid = Some u"
    for s key uid review p
    using that c generate_responses_check_raises [of s key uid u "env\<lparr>provider := p\<rparr>" ?e u' review]
    by (simp add: check_ignores_provider)
  with c show ?thesis
    by auto
qed

theorem quota_exceeded_witness:
  "fst (check_usage_limit (example_env (Returns ''{}''))
          (example_profile ''free'' 10 None))
     = Inl (HTTPException 429 ''Monthly limit reached. Upgrade to Pro for 500 responses/month'')
   \<and> generate_responses (example_env (Returns ''{}''))
        (example_state (example_profile ''free'' 10 None)) example_review ''rr_u1_00''
     = (Inl (HTTPException 429 ''Monthly limit reached. Upgrade to Pro for 500 responses/month''),
        example_state (example_profile ''free'' 10 None))"
proof -
  let ?env = "example_env (Returns ''{}'')"
  let ?u = "example_profile ''free'' 10 None"
  have same: "?env\<lparr>provider := (\<lambda>prompt. Returns ''{}'')\<rparr> = ?env"
    by (simp add: example_env_def)
  have db: "api_keys_db (example_state ?u) ''rr_u1_00'' = Some ''u1''
      \<and> users_db (example_state ?u) ''u1'' = Some ?u"
    by (simp add: example_state_def)
  have lim: "monthly_limit \<lparr>monthly_limit = 10, response_count = 3\<rparr> \<noteq> -1
      \<and> monthly_limit \<lparr>monthly_limit = 10, response_count = 3\<rparr>
          \<le> usage_count (example_profile ''free'' 10 (Some ''2024-03-31T00:00:00''))"
    by simp
  from quota_exceeded [of ?u "\<lparr>monthly_limit = 10, response_count = 3\<rparr>" ?env
      "example_profile ''free'' 10 (Some ''2024-03-31T00:00:00'')"]
    TIER_LIMITS_free example_reset_none lim
  have q: "fst (check_usage_limit ?env ?u)
           = Inl (HTTPException 429 ''Monthly limit reached. Upgrade to Pro for 500 responses/month'')
       \<and> (\<forall>s key uid review p.
             api_keys_db s key = Some uid \<and> users_db s uid = Some ?u \<longrightarrow>
             generate_responses (?env\<lparr>provider := p\<rparr>) s review key
               = (Inl (HTTPException 429
                    ''Monthly limit reached. Upgrade to Pro for 500 responses/month''), s))"
    by simp
  then have "generate_responses (?env\<lparr>provider := (\<lambda>prompt. Returns ''{}'')\<rparr>)
        (example_state ?u) example_review ''rr_u1_00''
     = (Inl (HTTPException 429 ''Monthly limit reached. Upgrade to Pro for 500 responses/month''),
        example_state ?u)"
    using db by blast
  with q same show ?thesis
    by simp
qed

subsection \<open>The response generator\<close>

lemma generate_provider_raises:
  assumes "TIER_LIMITS (subscription_tier profile) = Some pol"
    and "provider env (build_prompt review profile (sentiment_of (rating review)) (response_count pol))
           = Raises msg"
  shows "generate_ai_responses env review profile = Inl (generate_failed msg)"
  using assms by (simp add: generate_ai_responses_def getitem_Some Let_def)


lemma generate_parsed_dict:
  assumes "TIER_LIMITS (subscription_tier profile) = Some pol"
    and "provider env (build_prompt review profile (sentiment_of (rating review)) (response_count pol))
           = Returns response_text"
    and "json_loads env (clean_text response_text) = Parsed (JObj d)"
  shows "generate_ai_responses env review profile = Inr (dict_get d ''responses'' (JArr []))"
  using assms by (simp add: generate_ai_responses_def getitem_Some Let_def)


text \<open>
  A text that parses to a value other than a dict is not a decoding error: the
  \<open>AttributeError\<close> of \<open>parsed.get\<close> takes the handler of line 172.
\<close>

lemma generate_parsed_not_dict:
  assumes "TIER_LIMITS (subscription_tier profile) = Some pol"
    and "provider env (build_prompt review profile (sentiment_of (rating review)) (response_count pol))
           = Returns response_text"
    and "json_loads env (clean_text response_text) = Parsed v" and "\<not> is_dict v"
  shows "generate_ai_responses env review profile = Inl (generate_failed (no_attribute_get v))"
  using assms by (cases v) (simp_all add: generate_ai_responses_def getitem_Some Let_def)

lemma generate_fallback_path:
  assumes "fallback_path env review profile"
  shows "generate_ai_responses env review profile
           = Inr (fallback_responses review profile (sentiment_of (rating review)))"
  using assms
  by (auto simp: fallback_path_def generate_ai_responses_def TIER_LIMITS_getitem_def Let_def
      split: option.splits provider_result.splits loads_result.splits)


lemma fallback_is_list_of_dicts:
  "\<exists>xs. fallback_responses review profile sent = JArr xs \<and> list_all is_dict xs \<and> length xs = 3"
  by (simp add: fallback_responses_def)

text \<open>
  C4. When the provider call raises an exception that is not a \<open>JSONDecodeError\<close>,
  \<open>generate_ai_responses\<close> returns no list, fallback or other: it raises the
  \<open>HTTPException\<close> with status 500 and the detail "AI generation failed: " followed by
  the exception's text. The request of an authenticated caller whose usage check
  passed ends with that exception, and both dictionaries, the stored usage count among
  them, are as before.
\<close>

theorem provider_failure_propagates:
  assumes "TIER_LIMITS (subscription_tier profile) = Some pol"
    and "provider env (build_prompt review profile (sentiment_of (rating review)) (response_count pol))
           = Raises msg"
  shows "generate_ai_responses env review profile
           = Inl (HTTPException 500 (''AI generation failed: '' @ msg))
       \<and> (\<forall>s key uid stored remaining.
             api_keys_db s key = Some uid \<and> users_db s uid = Some stored
             \<and> check_usage_limit env stored = (Inr remaining, profile) \<longrightarrow>
             generate_responses env s review key
               = (Inl (HTTPException 500 (''AI generation failed: '' @ msg)), s))"
proof -
  have g: "generate_ai_responses env review profile
      = Inl (HTTPException 500 (''AI generation failed: '' @ msg))"
    using generate_provider_raises [OF assms] by (simp add: generate_failed_def)
  have "generate_responses env s review key
      = (Inl (HTTPException 500 (''AI generation failed: '' @ msg)), s)"
    if "api_keys_db s key = Some uid" and "users_db s uid = Some stored"
      and "check_usage_limit env stored = (Inr remaining, profile)"
    for s key uid stored remaining
    using that g by (rule generate_responses_generation_raises)
  with g show ?thesis
    by blast
qed

lemma example_check_free_9:
  "check_usage_limit (example_env pr) (example_profile ''free'' 9 None)
     = (Inr 1, example_profile ''free'' 9 (Some ''2024-03-31T00:00:00''))"
proof -
  have t: "TIER_LIMITS (subscription_tier (example_profile ''free'' 9 None))
      = Some \<lparr>monthly_limit = 10, response_count = 3\<rparr>"
    by (simp add: TIER_LIMITS_free)
  show ?thesis
    using check_passed [OF t example_reset_none] by simp
qed

lemma example_db:
  "api_keys_db (example_state u) ''rr_u1_00'' = Some ''u1'' \<and> users_db (example_state u) ''u1'' = Some u"
  by (simp add: example_state_def)

lemma example_provider [simp]: "provider (example_env pr) prompt = pr"
  by (simp add: example_env_def)

lemma example_loads [simp]: "json_loads (example_env pr) t = example_json_loads t"
  by (simp add: example_env_def)

lemma example_clean_fenced: \<open>clean_text example_fenced = ''{"replies": []}''\<close>
  by (simp add: clean_text_def example_fenced_def replace_def strip_def isspace_def)

lemma example_clean_sentence:
  "clean_text ''Sure! Here are three replies.'' = ''Sure! Here are three replies.''"
  by (simp add: clean_text_def replace_def strip_def isspace_def)

lemma differ_in_length: "length s \<noteq> length t \<Longrightarrow> (s = t) = False"
  by auto

lemma example_sentence_not_digits:
  "(''Sure! Here are three replies.'' = example_digits) = False"
  by (rule differ_in_length) (simp add: example_digits_def)

lemma example_loads_sentence:
  "example_json_loads ''Sure! Here are three replies.''
     = DecodeError ''Expecting value: line 1 column 1 (char 0)''"
  by (simp add: example_json_loads_def example_sentence_not_digits)

theorem provider_failure_propagates_witness:
  "generate_ai_responses (example_env (Raises ''Connection error.''))
       example_review (example_profile ''free'' 9 (Some ''2024-03-31T00:00:00''))
     = Inl (HTTPException 500 ''AI generation failed: Connection error.'')
   \<and> generate_responses (example_env (Raises ''Connection error.''))
        (example_state (example_profile ''free'' 9 None)) example_review ''rr_u1_00''
     = (Inl (HTTPException 500 ''AI generation failed: Connection error.''),
        example_state (example_profile ''free'' 9 None))"
proof -
  let ?env = "example_env (Raises ''Connection error.'')"
  let ?p = "example_profile ''free'' 9 (Some ''2024-03-31T00:00:00'')"
  have t: "TIER_LIMITS (subscription_tier ?p) = Some \<lparr>monthly_limit = 10, response_count = 3\<rparr>"
    by (simp add: TIER_LIMITS_free)
  have r: "provider ?env (build_prompt example_review ?p (sentiment_of (rating example_review))
        (response_count \<lparr>monthly_limit = 10, response_count = 3\<rparr>)) = Raises ''Connection error.''"
    by simp
  from provider_failure_propagates [OF t r] example_db [of "example_profile ''free'' 9 None"]
    example_check_free_9 [of "Raises ''Connection error.''"]
  show ?thesis
    by simp
qed








lemma example_store_update:
  "(example_state u)\<lparr>users_db := (users_db (example_state u))(''u1'' \<mapsto> u')\<rparr> = example_state u'"
  by (simp add: example_state_def)


text \<open>
  C10. When the provider returns a text whose cleaned form \<open>json.loads\<close> parses to a dict
  without the key "responses", \<open>generate_ai_responses\<close> returns the empty list: neither
  the fallback list nor an exception. The request of an authenticated caller whose
  usage check passed then returns an empty \<open>responses\<close> list, and the profile is stored
  with the usage count one higher.
\<close>

theorem missing_responses_key_gives_empty_list:
  assumes "TIER_LIMITS (subscription_tier profile) = Some pol"
    and "provider env (build_prompt review profile (sentiment_of (rating review)) (response_count pol))
           = Returns response_text"
    and "json_loads env (clean_text response_text) = Parsed (JObj d)"
    and "map_of d ''responses'' = None"
  shows "generate_ai_responses env review profile = Inr (JArr [])
       \<and> (\<forall>s key uid stored remaining.
             api_keys_db s key = Some uid \<and> users_db s uid = Some stored
             \<and> check_usage_limit env stored = (Inr remaining, profile) \<longrightarrow>
             generate_responses env s review key
               = (Inr \<lparr>responses = [], usage_remaining = remaining - 1\<rparr>,
                  s\<lparr>users_db := (users_db s)
                       (uid \<mapsto> profile\<lparr>usage_count := usage_count profile + 1\<rparr>)\<rparr>))"
proof -
  have g: "generate_ai_responses env review profile = Inr (JArr [])"
    using generate_parsed_dict [OF assms(1-3)] assms(4) by (simp add: dict_get_def)
  have v: "validate_responses env (JArr []) = Some []"
    by (simp add: validate_responses_def)
  have "generate_responses env s review key
      = (Inr \<lparr>responses = [], usage_remaining = remaining - 1\<rparr>,
         s\<lparr>users_db := (users_db s)(uid \<mapsto> profile\<lparr>usage_count := usage_count profile + 1\<rparr>)\<rparr>)"
    if "api_keys_db s key = Some uid" and "users_db s uid = Some stored"
      and "check_usage_limit env stored = (Inr remaining, profile)"
    for s key uid stored remaining
    using that g v by (rule generate_responses_returns)
  with g show ?thesis
    by blast
qed

theorem missing_responses_key_gives_empty_list_witness:
  "generate_ai_responses
       (example_env (Returns example_fenced))
       example_review (example_profile ''free'' 9 (Some ''2024-03-31T00:00:00''))
     = Inr (JArr [])
   \<and> generate_responses
       (example_env (Returns example_fenced))
       (example_state (example_profile ''free'' 9 None)) example_review ''rr_u1_00''
     = (Inr \<lparr>responses = [], usage_remaining = 0\<rparr>,
        example_state (example_profile ''free'' 10 (Some ''2024-03-31T00:00:00'')))"
proof -
  let ?env = "example_env (Returns example_fenced)"
  let ?p = "example_profile ''free'' 9 (Some ''2024-03-31T00:00:00'')"
  let ?s = "example_state (example_profile ''free'' 9 None)"
  have t: "TIER_LIMITS (subscription_tier ?p) = Some \<lparr>monthly_limit = 10, response_count = 3\<rparr>"
    by (simp add: TIER_LIMITS_free)
  have r: "provider ?env (build_prompt example_review ?p (sentiment_of (rating example_review))
        (response_count \<lparr>monthly_limit = 10, response_count = 3\<rparr>))
      = Returns example_fenced"
    by simp
  have l: "json_loads ?env (clean_text example_fenced) = Parsed (JObj [(''replies'', JArr [])])"
    by (simp add: example_clean_fenced example_json_loads_def)
  have k: "map_of [(''replies'', JArr [])] ''responses'' = None"
    by simp
  have c: "api_keys_db ?s ''rr_u1_00'' = Some ''u1''
      \<and> users_db ?s ''u1'' = Some (example_profile ''free'' 9 None)
      \<and> check_usage_limit ?env (example_profile ''free'' 9 None) = (Inr 1, ?p)"
    using example_db [of "example_profile ''free'' 9 None"] example_check_free_9 by simp
  have u: "?p\<lparr>usage_count := usage_count ?p + 1\<rparr>
      = example_profile ''free'' 10 (Some ''2024-03-31T00:00:00'')"
    by (simp add: example_profile_def)
  from missing_responses_key_gives_empty_list [OF t r l k] c
  have "generate_ai_responses ?env example_review ?p = Inr (JArr [])
      \<and> generate_responses ?env ?s example_review ''rr_u1_00''
        = (Inr \<lparr>responses = [], usage_remaining = 1 - 1\<rparr>,
           ?s\<lparr>users_db := (users_db ?s)(''u1'' \<mapsto> ?p\<lparr>usage_count := usage_count ?p + 1\<rparr>)\<rparr>)"
    by blast
  then show ?thesis
    unfolding u example_store_update by simp
qed

text \<open>
  C9. Two calls of \<open>generate_ai_responses\<close> that both end in the \<open>JSONDecodeError\<close> handler,
  for reviews with the same rating and profiles with the same business name and the
  same signature, return the same list, whatever else differs between the two reviews,
  the two profiles and the two environments.
\<close>

theorem fallback_deterministic:
  assumes "rating review1 = rating review2"
    and "business_name profile1 = business_name profile2"
    and "signature profile1 = signature profile2"
    and "fallback_path env1 review1 profile1"
    and "fallback_path env2 review2 profile2"
  shows "generate_ai_responses env1 review1 profile1 = generate_ai_responses env2 review2 profile2
       \<and> (\<exists>xs. generate_ai_responses env1 review1 profile1 = Inr (JArr xs) \<and> length xs = 3)"
proof -
  have "fallback_responses review1 profile1 (sentiment_of (rating review1))
      = fallback_responses review2 profile2 (sentiment_of (rating review2))"
    using assms(1-3) by (simp add: fallback_responses_def)
  moreover obtain xs where "fallback_responses review1 profile1 (sentiment_of (rating review1)) = JArr xs"
    and "length xs = 3"
    using fallback_is_list_of_dicts by blast
  ultimately show ?thesis
    using generate_fallback_path [OF assms(4)] generate_fallback_path [OF assms(5)] by metis
qed

lemma example_fallback_path_text:
  "TIER_LIMITS (subscription_tier profile) = Some pol \<Longrightarrow>
   fallback_path (example_env (Returns ''Sure! Here are three replies.'')) review profile"
  by (simp add: fallback_path_def example_clean_sentence example_loads_sentence)

lemma example_fallback_path_raise:
  "TIER_LIMITS (subscription_tier profile) = Some pol \<Longrightarrow>
   fallback_path (example_env (RaisesJSONDecodeError msg)) review profile"
  by (simp add: fallback_path_def)

theorem fallback_deterministic_witness:
  "generate_ai_responses (example_env (Returns ''Sure! Here are three replies.''))
       example_review (example_profile ''free'' 9 None)
     = generate_ai_responses (example_env (RaisesJSONDecodeError ''Expecting value''))
         (example_review\<lparr>review_text := ''Lovely place'', platform := ''yelp''\<rparr>)
         ((example_profile ''enterprise'' 4000 (Some ''2024-03-31T00:00:00''))
            \<lparr>business_type := ''bakery'', tone := ''friendly''\<rparr>)
   \<and> (\<exists>xs. generate_ai_responses (example_env (Returns ''Sure! Here are three replies.''))
              example_review (example_profile ''free'' 9 None) = Inr (JArr xs) \<and> length xs = 3)"
proof -
  let ?r2 = "example_review\<lparr>review_text := ''Lovely place'', platform := ''yelp''\<rparr>"
  let ?p2 = "(example_profile ''enterprise'' 4000 (Some ''2024-03-31T00:00:00''))
      \<lparr>business_type := ''bakery'', tone := ''friendly''\<rparr>"
  have a: "rating example_review = rating ?r2"
    by simp
  have b: "business_name (example_profile ''free'' 9 None) = business_name ?p2"
    by (simp add: example_profile_def)
  have c: "signature (example_profile ''free'' 9 None) = signature ?p2"
    by (simp add: example_profile_def)
  have d: "fallback_path (example_env (Returns ''Sure! Here are three replies.''))
      example_review (example_profile ''free'' 9 None)"
    by (rule example_fallback_path_text [of _ "\<lparr>monthly_limit = 10, response_count = 3\<rparr>"])
      (simp add: TIER_LIMITS_free)
  have e: "fallback_path (example_env (RaisesJSONDecodeError ''Expecting value'')) ?r2 ?p2"
    by (rule example_fallback_path_raise [of _ "\<lparr>monthly_limit = -1, response_count = 5\<rparr>"])
      (simp add: TIER_LIMITS_enterprise example_profile_def)
  from fallback_deterministic [OF a b c d e] show ?thesis .
qed

subsection \<open>The rollover and the store\<close>

text \<open>
  C6, as the claim states it, fails. The stored profile below has its reset date
  (2024-01-01) before the clock (2024-03-01); \<open>check_usage_limit\<close> rolls the request's
  profile over (count 0, reset date 2024-03-31); the provider call raises, the request
  ends with the 500, and the store still holds the profile with the count 10 and the
  reset date 2024-01-01: the rollover is not in the store.
\<close>

theorem rollover_lost_when_request_fails:
  "fromisoformat (example_env (Raises ''Connection error.'')) ''2024-01-01T00:00:00'' = Inr 0
   \<and> 0 < now_check (example_env (Raises ''Connection error.''))
   \<and> check_usage_limit (example_env (Raises ''Connection error.''))
         (example_profile ''free'' 10 (Some ''2024-01-01T00:00:00''))
       = (Inr 10, example_profile ''free'' 0 (Some ''2024-03-31T00:00:00''))
   \<and> generate_responses (example_env (Raises ''Connection error.''))
         (example_state (example_profile ''free'' 10 (Some ''2024-01-01T00:00:00'')))
         example_review ''rr_u1_00''
       = (Inl (HTTPException 500 ''AI generation failed: Connection error.''),
          example_state (example_profile ''free'' 10 (Some ''2024-01-01T00:00:00'')))
   \<and> users_db (example_state (example_profile ''free'' 10 (Some ''2024-01-01T00:00:00''))) ''u1''
       = Some (example_profile ''free'' 10 (Some ''2024-01-01T00:00:00''))
   \<and> example_profile ''free'' 10 (Some ''2024-01-01T00:00:00'')
       \<noteq> example_profile ''free'' 0 (Some ''2024-03-31T00:00:00'')"
proof -
  let ?env = "example_env (Raises ''Connection error.'')"
  let ?u = "example_profile ''free'' 10 (Some ''2024-01-01T00:00:00'')"
  let ?u' = "example_profile ''free'' 0 (Some ''2024-03-31T00:00:00'')"
  have past: "fromisoformat ?env ''2024-01-01T00:00:00'' = Inr 0 \<and> 0 < now_check ?env"
    by (simp add: example_env_def example_fromisoformat_def timedelta_days_def)
  have t: "TIER_LIMITS (subscription_tier ?u) = Some \<lparr>monthly_limit = 10, response_count = 3\<rparr>"
    by (simp add: TIER_LIMITS_free)
  have c: "check_usage_limit ?env ?u = (Inr 10, ?u')"
    using check_passed [OF t example_reset_past] by simp
  have t': "TIER_LIMITS (subscription_tier ?u') = Some \<lparr>monthly_limit = 10, response_count = 3\<rparr>"
    by (simp add: TIER_LIMITS_free)
  have g: "generate_ai_responses ?env example_review ?u'
      = Inl (HTTPException 500 ''AI generation failed: Connection error.'')"
    using generate_provider_raises [OF t', of ?env example_review "''Connection error.''"]
    by (simp add: generate_failed_def)
  have r: "generate_responses ?env (example_state ?u) example_review ''rr_u1_00''
      = (Inl (HTTPException 500 ''AI generation failed: Connection error.''), example_state ?u)"
    using example_db [of ?u] c g generate_responses_generation_raises by blast
  have n: "?u \<noteq> ?u'"
    by (simp add: example_profile_def)
  from past c r n example_db [of ?u] show ?thesis
    by blast
qed

text \<open>
  C6, amended. For a stored profile of a known tier whose reset date is before the
  clock, \<open>check_usage_limit\<close> rolls over the profile object of the request and then
  returns (the count is 0, so the 429 is not raised). When \<open>generate_ai_responses\<close> then
  raises, the request ends with that exception and both dictionaries are as before:
  the rollover is not stored. When it returns a value, the rolled-over profile is
  stored with the usage count 1 and the reset date \<open>now + 30 days\<close>.
\<close>

theorem rollover_stored_with_the_increment:
  assumes "api_keys_db s key = Some uid" and "users_db s uid = Some u"
    and "TIER_LIMITS (subscription_tier u) = Some pol"
    and "usage_reset_date u = Some d" and "d \<noteq> []"
    and "fromisoformat env d = Inr t" and "t < now_check env"
  shows "(let rolled = u\<lparr>usage_count := 0,
                          usage_reset_date := Some (isoformat env (now_stamp env + timedelta_days 30))\<rparr>
          in check_usage_limit env u
               = (Inr (if monthly_limit pol \<noteq> -1 then monthly_limit pol else 999), rolled)
             \<and> (\<forall>e. generate_ai_responses env review rolled = Inl e \<longrightarrow>
                    generate_responses env s review key = (Inl e, s))
             \<and> (\<forall>rs. generate_ai_responses env review rolled = Inr rs \<longrightarrow>
                    snd (generate_responses env s review key)
                      = s\<lparr>users_db := (users_db s)(uid \<mapsto> rolled\<lparr>usage_count := 1\<rparr>)\<rparr>))"
proof -
  define rolled where "rolled = u\<lparr>usage_count := 0,
      usage_reset_date := Some (isoformat env (now_stamp env + timedelta_days 30))\<rparr>"
  have reset: "reset_counter_if_new_month env u = Inr rolled"
    unfolding rolled_def using assms(4-7) by (rule reset_past)
  have zero: "usage_count rolled = 0"
    by (simp add: rolled_def)
  have lim: "monthly_limit pol = 10 \<or> monthly_limit pol = 500 \<or> monthly_limit pol = -1"
    using TIER_LIMITS_Some [OF assms(3)] by auto
  then have ok: "\<not> (monthly_limit pol \<noteq> -1 \<and> monthly_limit pol \<le> usage_count rolled)"
    using zero by auto
  have c: "check_usage_limit env u
      = (Inr (if monthly_limit pol \<noteq> -1 then monthly_limit pol else 999), rolled)"
    using check_passed [OF assms(3) reset ok] zero by simp
  have f: "generate_responses env s review key = (Inl e, s)"
    if "generate_ai_responses env review rolled = Inl e" for e
    using assms(1,2) c that by (rule generate_responses_generation_raises)
  have w: "snd (generate_responses env s review key)
      = s\<lparr>users_db := (users_db s)(uid \<mapsto> rolled\<lparr>usage_count := 1\<rparr>)\<rparr>"
    if "generate_ai_responses env review rolled = Inr rs" for rs
    using generate_responses_stores [OF assms(1,2) c that] zero by simp
  from c f w have "check_usage_limit env u
               = (Inr (if monthly_limit pol \<noteq> -1 then monthly_limit pol else 999), rolled)
             \<and> (\<forall>e. generate_ai_responses env review rolled = Inl e \<longrightarrow>
                    generate_responses env s review key = (Inl e, s))
             \<and> (\<forall>rs. generate_ai_responses env review rolled = Inr rs \<longrightarrow>
                    snd (generate_responses env s review key)
                      = s\<lparr>users_db := (users_db s)(uid \<mapsto> rolled\<lparr>usage_count := 1\<rparr>)\<rparr>)"
    by blast
  then show ?thesis
    unfolding Let_def rolled_def .
qed

theorem rollover_stored_with_the_increment_witness:
  "check_usage_limit (example_env (Raises ''Connection error.''))
       (example_profile ''free'' 10 (Some ''2024-01-01T00:00:00''))
     = (Inr 10, example_profile ''free'' 0 (Some ''2024-03-31T00:00:00''))
   \<and> generate_responses (example_env (Raises ''Connection error.''))
         (example_state (example_profile ''free'' 10 (Some ''2024-01-01T00:00:00'')))
         example_review ''rr_u1_00''
       = (Inl (HTTPException 500 ''AI generation failed: Connection error.''),
          example_state (example_profile ''free'' 10 (Some ''2024-01-01T00:00:00'')))
   \<and> snd (generate_responses (example_env (Returns ''Sure! Here are three replies.''))
         (example_state (example_profile ''free'' 10 (Some ''2024-01-01T00:00:00'')))
         example_review ''rr_u1_00'')
       = example_state (example_profile ''free'' 1 (Some ''2024-03-31T00:00:00''))"
proof -
  let ?u = "example_profile ''free'' 10 (Some ''2024-01-01T00:00:00'')"
  let ?u' = "example_profile ''free'' 0 (Some ''2024-03-31T00:00:00'')"
  let ?pol = "\<lparr>monthly_limit = 10, response_count = 3\<rparr>"
  have db: "api_keys_db (example_state ?u) ''rr_u1_00'' = Some ''u1''"
    "users_db (example_state ?u) ''u1'' = Some ?u"
    by (simp_all add: example_state_def)
  have t: "TIER_LIMITS (subscription_tier ?u) = Some ?pol"
    by (simp add: TIER_LIMITS_free)
  have d: "usage_reset_date ?u = Some ''2024-01-01T00:00:00''" "''2024-01-01T00:00:00'' \<noteq> []"
    by simp_all
  have past: "fromisoformat (example_env pr) ''2024-01-01T00:00:00'' = Inr 0"
    "0 < now_check (example_env pr)" for pr
    by (simp_all add: example_env_def example_fromisoformat_def timedelta_days_def)
  have rolled: "?u\<lparr>usage_count := 0,
        usage_reset_date := Some (isoformat (example_env pr) (now_stamp (example_env pr) + timedelta_days 30))\<rparr>
      = ?u'" for pr
    by (simp add: example_env_def example_isoformat_def example_profile_def timedelta_days_def)
  have t': "TIER_LIMITS (subscription_tier ?u') = Some ?pol"
    by (simp add: TIER_LIMITS_free)
  have g1: "generate_ai_responses (example_env (Raises ''Connection error.'')) example_review ?u'
      = Inl (HTTPException 500 ''AI generation failed: Connection error.'')"
    using generate_provider_raises
      [OF t', of "example_env (Raises ''Connection error.'')" example_review "''Connection error.''"]
    by (simp add: generate_failed_def)
  have g2: "generate_ai_responses (example_env (Returns ''Sure! Here are three replies.''))
        example_review ?u'
      = Inr (fallback_responses example_review ?u' (sentiment_of (rating example_review)))"
    by (rule generate_fallback_path) (rule example_fallback_path_text [OF t'])
  have one: "?u'\<lparr>usage_count := 1\<rparr> = example_profile ''free'' 1 (Some ''2024-03-31T00:00:00'')"
    by (simp add: example_profile_def)
  from rollover_stored_with_the_increment
    [OF db t d past, of "Raises ''Connection error.''" example_review] g1
  have a: "check_usage_limit (example_env (Raises ''Connection error.'')) ?u = (Inr 10, ?u')
      \<and> generate_responses (example_env (Raises ''Connection error.''))
           (example_state ?u) example_review ''rr_u1_00''
         = (Inl (HTTPException 500 ''AI generation failed: Connection error.''), example_state ?u)"
    unfolding Let_def rolled by simp
  from rollover_stored_with_the_increment
    [OF db t d past, of "Returns ''Sure! Here are three replies.''" example_review] g2
  have b: "snd (generate_responses (example_env (Returns ''Sure! Here are three replies.''))
           (example_state ?u) example_review ''rr_u1_00'')
         = example_state (example_profile ''free'' 1 (Some ''2024-03-31T00:00:00''))"
    unfolding Let_def rolled one example_store_update by simp
  from a b show ?thesis
    by blast
qed

end
